theory Spec2Isabelle
  imports Main
begin

section \<open>The registry API client of \<^verbatim>\<open>frontend/lib/api.ts\<close>\<close>

text \<open>
  The module is a typed client of a contract registry: seven asynchronous operations, each
  building a URL, calling \<^verbatim>\<open>fetch\<close> once, testing \<^verbatim>\<open>response.ok\<close> and
  returning \<^verbatim>\<open>response.json()\<close>. The embedding keeps that shape. A rejected promise
  is the left summand of a sum, the network is a function handed to every operation, and
  every operation returns the list of requests it issued next to its outcome.

  Strings are byte strings (UTF-8). A number is a whole number or \<^verbatim>\<open>NaN\<close>: the
  page numbers and counters the client handles are whole numbers, and \<^verbatim>\<open>NaN\<close> is
  the one number besides zero that is falsy. \<^verbatim>\<open>String(n)\<close> is the plain decimal
  numeral, which is what JavaScript prints for a whole number of magnitude up to
  \<open>2\<^sup>5\<^sup>3\<close>; larger numbers, fractions and infinities are left out, and no property
  below depends on the digits of a number.

  A promise that rejects, or a function that throws, has the exception as its value; a value
  that cannot occur for the types of the source (a cyclic object handed to
  \<^verbatim>\<open>JSON.stringify\<close>, say) is not modelled.
\<close>

subsection \<open>Values of the platform\<close>

text \<open>The exceptions a promise can be rejected with: constructor name and message.\<close>

datatype exn =
    Error string
  | TypeError string
  | SyntaxError string
  | DOMException string string

text \<open>A JSON value, as \<^verbatim>\<open>JSON.parse\<close> yields it; an object keeps its property order.\<close>

datatype json =
    JNull
  | JBool bool
  | JNum int
  | JStr string
  | JArr "json list"
  | JObj "(string \<times> json) list"

text \<open>
  A \<^verbatim>\<open>Response\<close>: its status and what \<^verbatim>\<open>response.json()\<close> settles to.
  \<^verbatim>\<open>response.ok\<close> is the Fetch standard's: the status is in the range 200 to 299.
\<close>

record Response =
  status :: nat
  json :: "exn + json"

definition ok :: "Response \<Rightarrow> bool" where
  "ok response = (200 \<le> status response \<and> status response \<le> 299)"

text \<open>
  The second argument of \<^verbatim>\<open>fetch\<close>, as \<^verbatim>\<open>publishContract\<close> fills it;
  \<open>method'\<close> is its property \<^verbatim>\<open>method\<close>.
\<close>

record RequestInit =
  method' :: string
  headers :: "(string \<times> string) list"
  body :: "string option"

type_synonym request = "string \<times> RequestInit option"

text \<open>\<^verbatim>\<open>fetch\<close> resolves to a response or rejects.\<close>

type_synonym fetch = "request \<Rightarrow> exn + Response"

text \<open>The method of a request: \<^verbatim>\<open>GET\<close> when \<^verbatim>\<open>fetch\<close> is given no init.\<close>

definition request_method :: "request \<Rightarrow> string" where
  "request_method req = (case snd req of None \<Rightarrow> ''GET'' | Some init \<Rightarrow> method' init)"

subsection \<open>Conversions to strings\<close>

definition digit_char :: "nat \<Rightarrow> char" where
  "digit_char n = ''0123456789'' ! n"

fun digits :: "nat \<Rightarrow> string" where
  "digits n = (if n < 10 then [digit_char n] else digits (n div 10) @ [digit_char (n mod 10)])"

declare digits.simps [simp del]

definition decimal :: "int \<Rightarrow> string" where
  "decimal n = (if n < 0 then CHR ''-'' # digits (nat (- n)) else digits (nat n))"

text \<open>
  The numbers of a \<^verbatim>\<open>ContractSearchParams\<close> value, their truthiness, and
  \<^verbatim>\<open>String(n)\<close> for a number and \<^verbatim>\<open>String(b)\<close> for a boolean.
\<close>

datatype number = Whole int | NaN

definition truthy_number :: "number \<Rightarrow> bool" where
  "truthy_number x = (case x of Whole n \<Rightarrow> n \<noteq> 0 | NaN \<Rightarrow> False)"

definition String_number :: "number \<Rightarrow> string" where
  "String_number x = (case x of Whole n \<Rightarrow> decimal n | NaN \<Rightarrow> ''NaN'')"

definition String_boolean :: "bool \<Rightarrow> string" where
  "String_boolean b = (if b then ''true'' else ''false'')"

subsection \<open>\<^verbatim>\<open>URLSearchParams\<close>\<close>

text \<open>
  A \<^verbatim>\<open>URLSearchParams\<close> object is its list of name and value pairs; \<^verbatim>\<open>append\<close>
  adds a pair at the end. Its string conversion is the URL standard's
  \<^verbatim>\<open>application/x-www-form-urlencoded\<close> serializer: ASCII letters, digits and
  \<^verbatim>\<open>* - . _\<close> stay, a space becomes \<^verbatim>\<open>+\<close>, every other byte becomes
  \<^verbatim>\<open>%XX\<close>; pairs are joined by \<^verbatim>\<open>&\<close>, name and value by \<^verbatim>\<open>=\<close>.
\<close>

type_synonym URLSearchParams = "(string \<times> string) list"

definition append :: "URLSearchParams \<Rightarrow> string \<Rightarrow> string \<Rightarrow> URLSearchParams" where
  "append queryParams name val = queryParams @ [(name, val)]"

definition hex_digit :: "nat \<Rightarrow> char" where
  "hex_digit n = ''0123456789ABCDEF'' ! (n mod 16)"

definition percent_encode :: "char \<Rightarrow> string" where
  "percent_encode c =
     [CHR ''%'', hex_digit ((of_char c :: nat) div 16), hex_digit ((of_char c :: nat) mod 16)]"

definition is_alnum :: "char \<Rightarrow> bool" where
  "is_alnum c =
     (let n = (of_char c :: nat)
      in (48 \<le> n \<and> n \<le> 57) \<or> (65 \<le> n \<and> n \<le> 90) \<or> (97 \<le> n \<and> n \<le> 122))"

definition urlencode_char :: "char \<Rightarrow> string" where
  "urlencode_char c =
     (if c = CHR '' '' then ''+''
      else if is_alnum c \<or> c \<in> set ''*-._'' then [c]
      else percent_encode c)"

definition urlencode :: "string \<Rightarrow> string" where
  "urlencode s = concat (map urlencode_char s)"

fun join :: "string \<Rightarrow> string list \<Rightarrow> string" where
  "join sep [] = []"
| "join sep [x] = x"
| "join sep (x # y # ys) = x @ sep @ join sep (y # ys)"

definition toString :: "URLSearchParams \<Rightarrow> string" where
  "toString queryParams =
     join ''&'' (map (\<lambda>p. urlencode (fst p) @ ''='' @ urlencode (snd p)) queryParams)"

subsection \<open>\<^verbatim>\<open>JSON.stringify\<close>\<close>

text \<open>
  A JavaScript value as \<^verbatim>\<open>JSON.stringify\<close> sees it. An object is the list of its own
  enumerable properties, in the order in which \<^verbatim>\<open>JSON.stringify\<close> visits them; it may
  hold any property, in any order. A value that has no JSON text (\<^verbatim>\<open>undefined\<close>, a
  function, a symbol) is \<open>VUndefined\<close>.
\<close>

datatype js_value =
    VUndefined
  | VNull
  | VBool bool
  | VNum number
  | VStr string
  | VArr "js_value list"
  | VObj "(string \<times> js_value) list"

text \<open>
  Strings are quoted, with the quote, the backslash and the control characters escaped.
\<close>

definition lower_hex_digit :: "nat \<Rightarrow> char" where
  "lower_hex_digit n = ''0123456789abcdef'' ! (n mod 16)"

definition json_escape_char :: "char \<Rightarrow> string" where
  "json_escape_char c =
     (let n = (of_char c :: nat)
      in if n = 0x22 then [CHR 0x5C, CHR 0x22]
         else if n = 0x5C then [CHR 0x5C, CHR 0x5C]
         else if n = 8 then [CHR 0x5C, CHR ''b'']
         else if n = 12 then [CHR 0x5C, CHR ''f'']
         else if n = 10 then [CHR 0x5C, CHR ''n'']
         else if n = 13 then [CHR 0x5C, CHR ''r'']
         else if n = 9 then [CHR 0x5C, CHR ''t'']
         else if n < 32 then
           [CHR 0x5C, CHR ''u'', CHR ''0'', CHR ''0'', lower_hex_digit (n div 16), lower_hex_digit n]
         else [c])"

definition quote :: "string \<Rightarrow> string" where
  "quote s = CHR 0x22 # concat (map json_escape_char s) @ [CHR 0x22]"

text \<open>
  \<^verbatim>\<open>JSON.stringify(value)\<close>, with no replacer and no indentation: \<open>None\<close> is the
  result \<^verbatim>\<open>undefined\<close>. An element of an array that has no text is written
  \<^verbatim>\<open>null\<close>; a property of an object that has no text is left out; the other
  properties are written in their order, each as its quoted name, a colon and the text of
  its value. A number that is not finite is written \<^verbatim>\<open>null\<close>.
\<close>

fun JSON_stringify :: "js_value \<Rightarrow> string option" where
  "JSON_stringify VUndefined = None"
| "JSON_stringify VNull = Some ''null''"
| "JSON_stringify (VBool b) = Some (String_boolean b)"
| "JSON_stringify (VNum x) = Some (case x of NaN \<Rightarrow> ''null'' | Whole n \<Rightarrow> String_number x)"
| "JSON_stringify (VStr s) = Some (quote s)"
| "JSON_stringify (VArr vs) =
     Some (''['' @ join '',''
             (map (\<lambda>v. case JSON_stringify v of None \<Rightarrow> ''null'' | Some text \<Rightarrow> text) vs)
           @ '']'')"
| "JSON_stringify (VObj ps) =
     Some (''{'' @ join '',''
             (concat (map (\<lambda>p. case JSON_stringify (snd p) of
                                  None \<Rightarrow> []
                                | Some text \<Rightarrow> [quote (fst p) @ '':'' @ text]) ps))
           @ ''}'')"

text \<open>The properties of an object that are written, each with the text of its value.\<close>

definition members :: "(string \<times> js_value) list \<Rightarrow> (string \<times> string) list" where
  "members ps =
     concat (map (\<lambda>p. case JSON_stringify (snd p) of
                         None \<Rightarrow> []
                       | Some text \<Rightarrow> [(fst p, text)]) ps)"

subsection \<open>The interfaces of the requests\<close>

datatype network = Mainnet | Testnet | Futurenet

fun network_string :: "network \<Rightarrow> string" where
  "network_string Mainnet = ''mainnet''"
| "network_string Testnet = ''testnet''"
| "network_string Futurenet = ''futurenet''"

text \<open>
  An optional field is an \<open>option\<close>: \<open>None\<close> is a field that is absent or
  \<^verbatim>\<open>undefined\<close>, which the code does not tell apart. \<^verbatim>\<open>getContracts\<close> reads
  the fields of its parameter one by one, so the parameter is a record of them.
\<close>

record ContractSearchParams =
  query :: "string option"
  network :: "network option"
  verified_only :: "bool option"
  category :: "string option"
  tags :: "string list option"
  page :: "number option"
  page_size :: "number option"

text \<open>
  \<^verbatim>\<open>publishContract\<close> reads no field of its parameter: it hands the object as it
  is to \<^verbatim>\<open>JSON.stringify\<close>. So the parameter is a JavaScript value, and the
  interface \<^verbatim>\<open>PublishRequest\<close> (lines 55 to 64) is a predicate on values: an object
  that has \<^verbatim>\<open>contract_id\<close>, \<^verbatim>\<open>name\<close> and \<^verbatim>\<open>publisher_address\<close> as strings,
  \<^verbatim>\<open>network\<close> as one of the three network names, \<^verbatim>\<open>tags\<close> as an array of
  strings, and \<^verbatim>\<open>description\<close>, \<^verbatim>\<open>category\<close> and \<^verbatim>\<open>source_url\<close> absent,
  \<^verbatim>\<open>undefined\<close> or strings. The order of the properties is free, and a value of the
  interface may hold further properties.
\<close>

definition is_string :: "js_value option \<Rightarrow> bool" where
  "is_string field = (case field of Some (VStr s) \<Rightarrow> True | _ \<Rightarrow> False)"

definition is_optional_string :: "js_value option \<Rightarrow> bool" where
  "is_optional_string field =
     (case field of None \<Rightarrow> True | Some VUndefined \<Rightarrow> True | Some (VStr s) \<Rightarrow> True
      | _ \<Rightarrow> False)"

definition is_network :: "js_value option \<Rightarrow> bool" where
  "is_network field =
     (case field of
        Some (VStr s) \<Rightarrow> s = ''mainnet'' \<or> s = ''testnet'' \<or> s = ''futurenet''
      | _ \<Rightarrow> False)"

definition is_VStr :: "js_value \<Rightarrow> bool" where
  "is_VStr v = (case v of VStr s \<Rightarrow> True | _ \<Rightarrow> False)"

definition is_string_array :: "js_value option \<Rightarrow> bool" where
  "is_string_array field = (case field of Some (VArr vs) \<Rightarrow> list_all is_VStr vs | _ \<Rightarrow> False)"

definition is_PublishRequest :: "js_value \<Rightarrow> bool" where
  "is_PublishRequest data =
     (case data of
        VObj ps \<Rightarrow>
          distinct (map fst ps)
          \<and> is_string (map_of ps ''contract_id'')
          \<and> is_string (map_of ps ''name'')
          \<and> is_optional_string (map_of ps ''description'')
          \<and> is_network (map_of ps ''network'')
          \<and> is_optional_string (map_of ps ''category'')
          \<and> is_string_array (map_of ps ''tags'')
          \<and> is_optional_string (map_of ps ''source_url'')
          \<and> is_string (map_of ps ''publisher_address'')
      | _ \<Rightarrow> False)"

text \<open>
  An object all of whose properties are strings or arrays of strings, as a
  \<^verbatim>\<open>PublishRequest\<close> is that has no further property and no property set to
  \<^verbatim>\<open>undefined\<close>.
\<close>

definition plain_value :: "js_value \<Rightarrow> bool" where
  "plain_value v = (case v of VStr s \<Rightarrow> True | VArr vs \<Rightarrow> list_all is_VStr vs | _ \<Rightarrow> False)"

definition plain_object :: "js_value \<Rightarrow> bool" where
  "plain_object data =
     (case data of VObj ps \<Rightarrow> list_all (\<lambda>p. plain_value (snd p)) ps | _ \<Rightarrow> False)"

subsection \<open>The module\<close>

text \<open>
  \<^verbatim>\<open>const API_URL = process.env.NEXT_PUBLIC_API_URL || 'http://localhost:3001'\<close>
  is evaluated when the module is loaded. \<^verbatim>\<open>process.env\<close> maps a variable to a string
  or to nothing; the only falsy string is the empty one. The operations take the loaded
  module, not the environment.
\<close>

type_synonym env = "string \<rightharpoonup> string"

record api_module =
  API_URL :: string

definition load_module :: "env \<Rightarrow> api_module" where
  "load_module process_env =
     \<lparr>API_URL = (case process_env ''NEXT_PUBLIC_API_URL'' of
                    None \<Rightarrow> ''http://localhost:3001''
                  | Some v \<Rightarrow> if v \<noteq> [] then v else ''http://localhost:3001'')\<rparr>"

text \<open>
  What an operation does: the requests it issued, in order, and how its promise settles
  (\<open>Inl\<close> rejected, \<open>Inr\<close> fulfilled).
\<close>

type_synonym outcome = "request list \<times> (exn + json)"

text \<open>Lines 71 to 77: the query parameters of \<^verbatim>\<open>getContracts\<close>.\<close>

definition getContracts_queryParams :: "ContractSearchParams option \<Rightarrow> URLSearchParams" where
  "getContracts_queryParams params =
     (let queryParams = [];
          queryParams = (case Option.bind params query of
             None \<Rightarrow> queryParams
           | Some q \<Rightarrow> if q \<noteq> [] then append queryParams ''query'' q else queryParams);
          queryParams = (case Option.bind params ContractSearchParams.network of
             None \<Rightarrow> queryParams
           | Some n \<Rightarrow> if network_string n \<noteq> []
                       then append queryParams ''network'' (network_string n) else queryParams);
          queryParams = (case Option.bind params verified_only of
             None \<Rightarrow> queryParams
           | Some b \<Rightarrow> append queryParams ''verified_only'' (String_boolean b));
          queryParams = (case Option.bind params ContractSearchParams.category of
             None \<Rightarrow> queryParams
           | Some c \<Rightarrow> if c \<noteq> [] then append queryParams ''category'' c else queryParams);
          queryParams = (case Option.bind params page of
             None \<Rightarrow> queryParams
           | Some n \<Rightarrow> if truthy_number n then append queryParams ''page'' (String_number n)
                       else queryParams);
          queryParams = (case Option.bind params page_size of
             None \<Rightarrow> queryParams
           | Some n \<Rightarrow> if truthy_number n then append queryParams ''page_size'' (String_number n)
                       else queryParams)
      in queryParams)"

definition getContracts :: "api_module \<Rightarrow> fetch \<Rightarrow> ContractSearchParams option \<Rightarrow> outcome" where
  "getContracts m fetch params =
     (let queryParams = getContracts_queryParams params;
          req = (API_URL m @ ''/api/contracts?'' @ toString queryParams, None)
      in ([req],
          case fetch req of
            Inl e \<Rightarrow> Inl e
          | Inr response \<Rightarrow>
              if \<not> ok response then Inl (Error ''Failed to fetch contracts'')
              else json response))"

definition getContract :: "api_module \<Rightarrow> fetch \<Rightarrow> string \<Rightarrow> outcome" where
  "getContract m fetch id' =
     (let req = (API_URL m @ ''/api/contracts/'' @ id', None)
      in ([req],
          case fetch req of
            Inl e \<Rightarrow> Inl e
          | Inr response \<Rightarrow>
              if \<not> ok response then Inl (Error ''Failed to fetch contract'')
              else json response))"

definition getContractVersions :: "api_module \<Rightarrow> fetch \<Rightarrow> string \<Rightarrow> outcome" where
  "getContractVersions m fetch id' =
     (let req = (API_URL m @ ''/api/contracts/'' @ id' @ ''/versions'', None)
      in ([req],
          case fetch req of
            Inl e \<Rightarrow> Inl e
          | Inr response \<Rightarrow>
              if \<not> ok response then Inl (Error ''Failed to fetch contract versions'')
              else json response))"

definition publishContract :: "api_module \<Rightarrow> fetch \<Rightarrow> js_value \<Rightarrow> outcome" where
  "publishContract m fetch data =
     (let req = (API_URL m @ ''/api/contracts'',
                 Some \<lparr>method' = ''POST'',
                       headers = [(''Content-Type'', ''application/json'')],
                       body = JSON_stringify data\<rparr>)
      in ([req],
          case fetch req of
            Inl e \<Rightarrow> Inl e
          | Inr response \<Rightarrow>
              if \<not> ok response then Inl (Error ''Failed to publish contract'')
              else json response))"

definition getPublisher :: "api_module \<Rightarrow> fetch \<Rightarrow> string \<Rightarrow> outcome" where
  "getPublisher m fetch id' =
     (let req = (API_URL m @ ''/api/publishers/'' @ id', None)
      in ([req],
          case fetch req of
            Inl e \<Rightarrow> Inl e
          | Inr response \<Rightarrow>
              if \<not> ok response then Inl (Error ''Failed to fetch publisher'')
              else json response))"

definition getPublisherContracts :: "api_module \<Rightarrow> fetch \<Rightarrow> string \<Rightarrow> outcome" where
  "getPublisherContracts m fetch id' =
     (let req = (API_URL m @ ''/api/publishers/'' @ id' @ ''/contracts'', None)
      in ([req],
          case fetch req of
            Inl e \<Rightarrow> Inl e
          | Inr response \<Rightarrow>
              if \<not> ok response then Inl (Error ''Failed to fetch publisher contracts'')
              else json response))"

definition getStats :: "api_module \<Rightarrow> fetch \<Rightarrow> outcome" where
  "getStats m fetch =
     (let req = (API_URL m @ ''/api/stats'', None)
      in ([req],
          case fetch req of
            Inl e \<Rightarrow> Inl e
          | Inr response \<Rightarrow>
              if \<not> ok response then Inl (Error ''Failed to fetch stats'')
              else json response))"

subsection \<open>Reading a URL back\<close>

text \<open>
  The pieces of a string between occurrences of a separator; the keys of a query string
  are the names of its non-empty pieces between \<^verbatim>\<open>&\<close>, each ending at its first
  \<^verbatim>\<open>=\<close>, as the URL standard's parser reads them; the segments of a path are its
  pieces between \<^verbatim>\<open>/\<close>.
\<close>

fun split_on :: "char \<Rightarrow> string \<Rightarrow> string list" where
  "split_on sep [] = [[]]"
| "split_on sep (c # cs) =
     (if c = sep then [] # split_on sep cs
      else (case split_on sep cs of
              [] \<Rightarrow> [[c]]
            | piece # pieces \<Rightarrow> (c # piece) # pieces))"

definition query_string_keys :: "string \<Rightarrow> string list" where
  "query_string_keys s =
     map (takeWhile (\<lambda>c. c \<noteq> CHR ''=''))
         (filter (\<lambda>piece. piece \<noteq> []) (split_on CHR ''&'' s))"

definition path_segments :: "string \<Rightarrow> string list" where
  "path_segments path = split_on CHR ''/'' path"

text \<open>
  The path in what follows the origin of a URL: it ends where the query (\<^verbatim>\<open>?\<close>) or
  the fragment (\<^verbatim>\<open>#\<close>) begins.
\<close>

definition path_of :: "string \<Rightarrow> string" where
  "path_of rest = takeWhile (\<lambda>c. c \<noteq> CHR ''?'' \<and> c \<noteq> CHR ''#'') rest"

text \<open>
  The keys whose field is present and not \<^verbatim>\<open>undefined\<close> in a
  \<^verbatim>\<open>ContractSearchParams\<close> value, \<^verbatim>\<open>tags\<close> left out: the keys the specification
  expects in the query string.
\<close>

definition defined_keys :: "ContractSearchParams \<Rightarrow> string set" where
  "defined_keys params =
     (if query params = None then {} else {''query''})
     \<union> (if ContractSearchParams.network params = None then {} else {''network''})
     \<union> (if verified_only params = None then {} else {''verified_only''})
     \<union> (if ContractSearchParams.category params = None then {} else {''category''})
     \<union> (if page params = None then {} else {''page''})
     \<union> (if page_size params = None then {} else {''page_size''})"

text \<open>
  The shape of the statistics record: an object of exactly the three fields
  \<^verbatim>\<open>total_contracts\<close>, \<^verbatim>\<open>verified_contracts\<close> and \<^verbatim>\<open>total_publishers\<close>, each a
  number.
\<close>

definition is_number :: "json option \<Rightarrow> bool" where
  "is_number v = (case v of Some (JNum n) \<Rightarrow> True | _ \<Rightarrow> False)"

definition stats_shape :: "json \<Rightarrow> bool" where
  "stats_shape v =
     (case v of
        JObj ps \<Rightarrow>
          length ps = 3
          \<and> is_number (map_of ps ''total_contracts'')
          \<and> is_number (map_of ps ''verified_contracts'')
          \<and> is_number (map_of ps ''total_publishers'')
      | _ \<Rightarrow> False)"

subsection \<open>Servers for the examples\<close>

text \<open>A server that answers every request with one response, and a transport that fails.\<close>

definition respond :: "Response \<Rightarrow> fetch" where
  "respond response req = Inr response"

definition reject :: "exn \<Rightarrow> fetch" where
  "reject e req = Inl e"

text \<open>The values the examples run on.\<close>

definition not_found :: Response where
  "not_found = \<lparr>status = 404, json = Inr (JObj [(''error'', JStr ''not found'')])\<rparr>"

definition bad_json :: Response where
  "bad_json = \<lparr>status = 200, json = Inl (SyntaxError ''Unexpected end of JSON input'')\<rparr>"

text \<open>
  A request whose properties are not in the order of the interface, with
  \<^verbatim>\<open>description\<close> set to \<^verbatim>\<open>undefined\<close> and a property the interface does not
  name.
\<close>

definition example_request :: js_value where
  "example_request =
     VObj [(''name'', VStr ''token''), (''contract_id'', VStr ''CA3D''),
           (''description'', VUndefined), (''network'', VStr ''testnet''),
           (''tags'', VArr [VStr ''sep41'', VStr ''a b'']),
           (''publisher_address'', VStr ''GB7T''), (''draft'', VBool True)]"

section \<open>Properties\<close>

subsection \<open>The serializer never writes a separator into a name or a value\<close>

lemma hex_digit_mem: "hex_digit n \<in> set ''0123456789ABCDEF''"
  unfolding hex_digit_def by (rule nth_mem) simp

lemma hex_digit_no_sep: "hex_digit n \<noteq> CHR ''&''" "hex_digit n \<noteq> CHR ''=''"
  using hex_digit_mem [of n] by auto

lemma urlencode_char_no_sep:
  "CHR ''&'' \<notin> set (urlencode_char c)" "CHR ''='' \<notin> set (urlencode_char c)"
  using hex_digit_no_sep [of "of_char c div 16"] hex_digit_no_sep [of "of_char c mod 16"]
  by (auto simp: urlencode_char_def percent_encode_def is_alnum_def)

lemma urlencode_no_sep:
  "CHR ''&'' \<notin> set (urlencode s)" "CHR ''='' \<notin> set (urlencode s)"
  by (auto simp: urlencode_def urlencode_char_no_sep)

lemma split_on_no_sep: "sep \<notin> set xs \<Longrightarrow> split_on sep xs = [xs]"
  by (induction xs) auto

lemma split_on_append:
  "sep \<notin> set xs \<Longrightarrow> split_on sep (xs @ sep # ys) = xs # split_on sep ys"
  by (induction xs) auto

lemma split_on_join:
  "pieces \<noteq> [] \<Longrightarrow> \<forall>p \<in> set pieces. sep \<notin> set p
     \<Longrightarrow> split_on sep (join [sep] pieces) = pieces"
proof (induction "[sep]" pieces rule: join.induct)
  case 1
  then show ?case by simp
next
  case (2 x)
  then show ?case by (simp add: split_on_no_sep)
next
  case (3 x y ys)
  then show ?case by (simp add: split_on_append)
qed

text \<open>Reading the keys back from a serialized query gives the encoded names, in order.\<close>

lemma query_string_keys_toString:
  "query_string_keys (toString queryParams) = map (\<lambda>p. urlencode (fst p)) queryParams"
proof (cases "queryParams = []")
  case True
  then show ?thesis by (simp add: query_string_keys_def toString_def)
next
  case False
  let ?pieces = "map (\<lambda>p. urlencode (fst p) @ ''='' @ urlencode (snd p)) queryParams"
  have "split_on CHR ''&'' (join ''&'' ?pieces) = ?pieces"
    using False by (intro split_on_join) (auto simp: urlencode_no_sep)
  then show ?thesis
    by (simp add: query_string_keys_def toString_def filter_map o_def takeWhile_append
        urlencode_no_sep cong: map_cong)
qed

lemma urlencode_keys:
  "urlencode ''query'' = ''query''" "urlencode ''network'' = ''network''"
  "urlencode ''verified_only'' = ''verified_only''" "urlencode ''category'' = ''category''"
  "urlencode ''page'' = ''page''" "urlencode ''page_size'' = ''page_size''"
  by (simp_all add: urlencode_def urlencode_char_def is_alnum_def)

subsection \<open>The query of \<^verbatim>\<open>getContracts\<close>\<close>

lemma getContracts_queryParams_None: "getContracts_queryParams None = []"
  by (simp add: getContracts_queryParams_def)

lemma network_string_nonempty: "network_string n \<noteq> []"
  by (cases n) simp_all

lemma getContracts_queryParams_Some:
  "getContracts_queryParams (Some p) =
     (case query p of None \<Rightarrow> [] | Some q \<Rightarrow> if q \<noteq> [] then [(''query'', q)] else [])
     @ (case ContractSearchParams.network p of
          None \<Rightarrow> [] | Some n \<Rightarrow> [(''network'', network_string n)])
     @ (case verified_only p of None \<Rightarrow> [] | Some b \<Rightarrow> [(''verified_only'', String_boolean b)])
     @ (case ContractSearchParams.category p of
          None \<Rightarrow> [] | Some c \<Rightarrow> if c \<noteq> [] then [(''category'', c)] else [])
     @ (case page p of
          None \<Rightarrow> [] | Some n \<Rightarrow> if truthy_number n then [(''page'', String_number n)] else [])
     @ (case page_size p of
          None \<Rightarrow> [] | Some n \<Rightarrow> if truthy_number n then [(''page_size'', String_number n)] else [])"
  by (simp add: getContracts_queryParams_def append_def network_string_nonempty Let_def
      split: option.splits)

lemma query_keys_Some:
  "query_string_keys (toString (getContracts_queryParams (Some p))) =
     (case query p of None \<Rightarrow> [] | Some q \<Rightarrow> if q \<noteq> [] then [''query''] else [])
     @ (case ContractSearchParams.network p of None \<Rightarrow> [] | Some n \<Rightarrow> [''network''])
     @ (case verified_only p of None \<Rightarrow> [] | Some b \<Rightarrow> [''verified_only''])
     @ (case ContractSearchParams.category p of
          None \<Rightarrow> [] | Some c \<Rightarrow> if c \<noteq> [] then [''category''] else [])
     @ (case page p of None \<Rightarrow> [] | Some n \<Rightarrow> if truthy_number n then [''page''] else [])
     @ (case page_size p of None \<Rightarrow> [] | Some n \<Rightarrow> if truthy_number n then [''page_size''] else [])"
  unfolding query_string_keys_toString getContracts_queryParams_Some
  by (simp add: urlencode_keys split: option.splits)

text \<open>
  Claim C1, as the specification states it: the query string contains exactly the keys
  whose field is defined. The code does not do that. With \<^verbatim>\<open>query\<close> the empty string
  and \<^verbatim>\<open>page\<close> zero, both defined, the query string holds \<^verbatim>\<open>verified_only\<close> alone:
  the guards of \<^verbatim>\<open>query\<close>, \<^verbatim>\<open>network\<close>, \<^verbatim>\<open>category\<close>, \<^verbatim>\<open>page\<close> and
  \<^verbatim>\<open>page_size\<close> test the value's truthiness, only the one of \<^verbatim>\<open>verified_only\<close>
  compares with \<^verbatim>\<open>undefined\<close>.
\<close>

theorem defined_keys_counterexample:
  "set (query_string_keys (toString (getContracts_queryParams
      (Some \<lparr>query = Some [], network = None, verified_only = Some False,
             category = None, tags = None, page = Some (Whole 0), page_size = None\<rparr>))))
   \<noteq> defined_keys \<lparr>query = Some [], network = None, verified_only = Some False,
             category = None, tags = None, page = Some (Whole 0), page_size = None\<rparr>"
  by (simp add: query_keys_Some defined_keys_def truthy_number_def)

text \<open>
  Claim C1, amended: \<^verbatim>\<open>getContracts\<close> requests the base URL followed by
  \<^verbatim>\<open>/api/contracts?\<close> and the query string, and the keys of the query string are,
  each at most once and none besides them: \<^verbatim>\<open>query\<close> and \<^verbatim>\<open>category\<close> when
  the field is a non-empty string, \<^verbatim>\<open>network\<close> when the field is defined,
  \<^verbatim>\<open>verified_only\<close> when the field is defined (also when it is \<^verbatim>\<open>false\<close>),
  \<^verbatim>\<open>page\<close> and \<^verbatim>\<open>page_size\<close> when the field is a truthy number, that is
  neither zero nor \<^verbatim>\<open>NaN\<close>. An
  undefined or absent field is never serialized, and \<^verbatim>\<open>tags\<close> never is.
\<close>

theorem getContracts_query_keys:
  fixes params :: "ContractSearchParams option"
  defines "keys \<equiv> query_string_keys (toString (getContracts_queryParams params))"
  shows "fst (getContracts m fetch params) =
           [(API_URL m @ ''/api/contracts?'' @ toString (getContracts_queryParams params), None)]
       \<and> distinct keys
       \<and> set keys
           \<subseteq> {''query'', ''network'', ''verified_only'', ''category'', ''page'', ''page_size''}
       \<and> (''query'' \<in> set keys \<longleftrightarrow> (\<exists>q. Option.bind params query = Some q \<and> q \<noteq> []))
       \<and> (''network'' \<in> set keys
            \<longleftrightarrow> Option.bind params ContractSearchParams.network \<noteq> None)
       \<and> (''verified_only'' \<in> set keys \<longleftrightarrow> Option.bind params verified_only \<noteq> None)
       \<and> (''category'' \<in> set keys
            \<longleftrightarrow> (\<exists>c. Option.bind params ContractSearchParams.category = Some c \<and> c \<noteq> []))
       \<and> (''page'' \<in> set keys \<longleftrightarrow> (\<exists>n. Option.bind params page = Some n \<and> truthy_number n))
       \<and> (''page_size'' \<in> set keys
            \<longleftrightarrow> (\<exists>n. Option.bind params page_size = Some n \<and> truthy_number n))
       \<and> ''tags'' \<notin> set keys"
proof (cases params)
  case None
  then show ?thesis
    by (simp add: keys_def getContracts_queryParams_None getContracts_def toString_def
        query_string_keys_def Let_def)
next
  case (Some p)
  have url: "fst (getContracts m fetch params) =
           [(API_URL m @ ''/api/contracts?'' @ toString (getContracts_queryParams params), None)]"
    by (simp add: getContracts_def Let_def)
  have k: "keys =
     (case query p of None \<Rightarrow> [] | Some q \<Rightarrow> if q \<noteq> [] then [''query''] else [])
     @ (case ContractSearchParams.network p of None \<Rightarrow> [] | Some n \<Rightarrow> [''network''])
     @ (case verified_only p of None \<Rightarrow> [] | Some b \<Rightarrow> [''verified_only''])
     @ (case ContractSearchParams.category p of
          None \<Rightarrow> [] | Some c \<Rightarrow> if c \<noteq> [] then [''category''] else [])
     @ (case page p of None \<Rightarrow> [] | Some n \<Rightarrow> if truthy_number n then [''page''] else [])
     @ (case page_size p of None \<Rightarrow> [] | Some n \<Rightarrow> if truthy_number n then [''page_size''] else [])"
    unfolding keys_def Some by (rule query_keys_Some)
  have 1: "distinct keys"
    unfolding k by (simp split: option.splits)
  have 2: "set keys
      \<subseteq> {''query'', ''network'', ''verified_only'', ''category'', ''page'', ''page_size''}"
    unfolding k by (auto split: option.splits if_splits)
  have 3: "''query'' \<in> set keys \<longleftrightarrow> (\<exists>q. Option.bind params query = Some q \<and> q \<noteq> [])"
    unfolding k Some by (cases "query p") auto
  have 4: "''network'' \<in> set keys \<longleftrightarrow> Option.bind params ContractSearchParams.network \<noteq> None"
    unfolding k Some by (cases "ContractSearchParams.network p") auto
  have 5: "''verified_only'' \<in> set keys \<longleftrightarrow> Option.bind params verified_only \<noteq> None"
    unfolding k Some by (cases "verified_only p") auto
  have 6: "''category'' \<in> set keys
      \<longleftrightarrow> (\<exists>c. Option.bind params ContractSearchParams.category = Some c \<and> c \<noteq> [])"
    unfolding k Some by (cases "ContractSearchParams.category p") auto
  have 7: "''page'' \<in> set keys \<longleftrightarrow> (\<exists>n. Option.bind params page = Some n \<and> truthy_number n)"
    unfolding k Some by (cases "page p") auto
  have 8: "''page_size'' \<in> set keys \<longleftrightarrow> (\<exists>n. Option.bind params page_size = Some n \<and> truthy_number n)"
    unfolding k Some by (cases "page_size p") auto
  have 9: "''tags'' \<notin> set keys"
    unfolding k by (simp split: option.splits)
  from url 1 2 3 4 5 6 7 8 9 show ?thesis by blast
qed

theorem getContracts_query_keys_witness:
  "(let keys = query_string_keys (toString (getContracts_queryParams
      (Some \<lparr>query = Some ''token swap'', network = Some Testnet, verified_only = Some False,
             category = Some [], tags = Some [''defi''], page = Some (Whole 0), page_size = Some NaN\<rparr>)))
    in ''query'' \<in> set keys \<and> ''network'' \<in> set keys \<and> ''verified_only'' \<in> set keys
       \<and> ''category'' \<notin> set keys \<and> ''page'' \<notin> set keys \<and> ''page_size'' \<notin> set keys
       \<and> ''tags'' \<notin> set keys)"
  using getContracts_query_keys [of "load_module Map.empty" "respond not_found"
      "Some \<lparr>query = Some ''token swap'', network = Some Testnet, verified_only = Some False,
             category = Some [], tags = Some [''defi''], page = Some (Whole 0), page_size = Some NaN\<rparr>"]
  by (simp add: truthy_number_def)

subsection \<open>Failures\<close>

text \<open>
  Claim C2: whatever the operation, a response whose status is outside 200 to 299 makes
  the call fail with a generic \<^verbatim>\<open>Error\<close> carrying the operation's fixed message. The
  status and the body of the response are arbitrary here: no status is told apart from
  another and nothing of the body reaches the result.
\<close>

theorem non_success_status_fails:
  assumes "\<not> ok response"
  shows "(fetch (API_URL m @ ''/api/contracts?'' @ toString (getContracts_queryParams params), None)
            = Inr response
          \<longrightarrow> snd (getContracts m fetch params) = Inl (Error ''Failed to fetch contracts''))
       \<and> (fetch (API_URL m @ ''/api/contracts/'' @ id', None) = Inr response
          \<longrightarrow> snd (getContract m fetch id') = Inl (Error ''Failed to fetch contract''))
       \<and> (fetch (API_URL m @ ''/api/contracts/'' @ id' @ ''/versions'', None) = Inr response
          \<longrightarrow> snd (getContractVersions m fetch id')
              = Inl (Error ''Failed to fetch contract versions''))
       \<and> (fetch (API_URL m @ ''/api/contracts'',
                 Some \<lparr>method' = ''POST'', headers = [(''Content-Type'', ''application/json'')],
                       body = JSON_stringify data\<rparr>) = Inr response
          \<longrightarrow> snd (publishContract m fetch data) = Inl (Error ''Failed to publish contract''))
       \<and> (fetch (API_URL m @ ''/api/publishers/'' @ id', None) = Inr response
          \<longrightarrow> snd (getPublisher m fetch id') = Inl (Error ''Failed to fetch publisher''))
       \<and> (fetch (API_URL m @ ''/api/publishers/'' @ id' @ ''/contracts'', None) = Inr response
          \<longrightarrow> snd (getPublisherContracts m fetch id')
              = Inl (Error ''Failed to fetch publisher contracts''))
       \<and> (fetch (API_URL m @ ''/api/stats'', None) = Inr response
          \<longrightarrow> snd (getStats m fetch) = Inl (Error ''Failed to fetch stats''))"
  using assms
  by (simp add: getContracts_def getContract_def getContractVersions_def publishContract_def
      getPublisher_def getPublisherContracts_def getStats_def Let_def)

theorem non_success_status_fails_witness:
  "\<not> ok not_found
   \<and> snd (getContracts (load_module Map.empty) (respond not_found) None)
       = Inl (Error ''Failed to fetch contracts'')
   \<and> snd (getContract (load_module Map.empty) (respond not_found) ''x'')
       = Inl (Error ''Failed to fetch contract'')
   \<and> snd (getContractVersions (load_module Map.empty) (respond not_found) ''x'')
       = Inl (Error ''Failed to fetch contract versions'')
   \<and> snd (publishContract (load_module Map.empty) (respond not_found) example_request)
       = Inl (Error ''Failed to publish contract'')
   \<and> snd (getPublisher (load_module Map.empty) (respond not_found) ''x'')
       = Inl (Error ''Failed to fetch publisher'')
   \<and> snd (getPublisherContracts (load_module Map.empty) (respond not_found) ''x'')
       = Inl (Error ''Failed to fetch publisher contracts'')
   \<and> snd (getStats (load_module Map.empty) (respond not_found))
       = Inl (Error ''Failed to fetch stats'')"
  using non_success_status_fails
    [of not_found "respond not_found" "load_module Map.empty" None "''x''" example_request]
  by (simp add: ok_def respond_def not_found_def)

text \<open>
  Claim C7: an exception raised by the transport reaches the caller as it is. When
  \<^verbatim>\<open>fetch\<close> rejects with \<open>e\<close>, the operation rejects with \<open>e\<close>; when the response
  is a success and \<^verbatim>\<open>response.json()\<close> rejects with \<open>e'\<close>, the operation rejects with
  \<open>e'\<close>. In neither case is the operation's own message put in its place.
\<close>

theorem transport_failures_propagate:
  assumes "ok response" and "json response = Inl e'"
  shows "(fetch (API_URL m @ ''/api/contracts?'' @ toString (getContracts_queryParams params), None)
            = Inl e \<longrightarrow> snd (getContracts m fetch params) = Inl e)
       \<and> (fetch' (API_URL m @ ''/api/contracts?'' @ toString (getContracts_queryParams params), None)
            = Inr response \<longrightarrow> snd (getContracts m fetch' params) = Inl e')
       \<and> (fetch (API_URL m @ ''/api/contracts/'' @ id', None) = Inl e
            \<longrightarrow> snd (getContract m fetch id') = Inl e)
       \<and> (fetch' (API_URL m @ ''/api/contracts/'' @ id', None) = Inr response
            \<longrightarrow> snd (getContract m fetch' id') = Inl e')
       \<and> (fetch (API_URL m @ ''/api/contracts/'' @ id' @ ''/versions'', None) = Inl e
            \<longrightarrow> snd (getContractVersions m fetch id') = Inl e)
       \<and> (fetch' (API_URL m @ ''/api/contracts/'' @ id' @ ''/versions'', None) = Inr response
            \<longrightarrow> snd (getContractVersions m fetch' id') = Inl e')
       \<and> (fetch (API_URL m @ ''/api/contracts'',
                 Some \<lparr>method' = ''POST'', headers = [(''Content-Type'', ''application/json'')],
                       body = JSON_stringify data\<rparr>) = Inl e
            \<longrightarrow> snd (publishContract m fetch data) = Inl e)
       \<and> (fetch' (API_URL m @ ''/api/contracts'',
                 Some \<lparr>method' = ''POST'', headers = [(''Content-Type'', ''application/json'')],
                       body = JSON_stringify data\<rparr>) = Inr response
            \<longrightarrow> snd (publishContract m fetch' data) = Inl e')
       \<and> (fetch (API_URL m @ ''/api/publishers/'' @ id', None) = Inl e
            \<longrightarrow> snd (getPublisher m fetch id') = Inl e)
       \<and> (fetch' (API_URL m @ ''/api/publishers/'' @ id', None) = Inr response
            \<longrightarrow> snd (getPublisher m fetch' id') = Inl e')
       \<and> (fetch (API_URL m @ ''/api/publishers/'' @ id' @ ''/contracts'', None) = Inl e
            \<longrightarrow> snd (getPublisherContracts m fetch id') = Inl e)
       \<and> (fetch' (API_URL m @ ''/api/publishers/'' @ id' @ ''/contracts'', None) = Inr response
            \<longrightarrow> snd (getPublisherContracts m fetch' id') = Inl e')
       \<and> (fetch (API_URL m @ ''/api/stats'', None) = Inl e
            \<longrightarrow> snd (getStats m fetch) = Inl e)
       \<and> (fetch' (API_URL m @ ''/api/stats'', None) = Inr response
            \<longrightarrow> snd (getStats m fetch') = Inl e')"
  using assms
  by (simp add: getContracts_def getContract_def getContractVersions_def publishContract_def
      getPublisher_def getPublisherContracts_def getStats_def Let_def)

theorem transport_failures_propagate_witness:
  "ok bad_json
   \<and> snd (getContracts (load_module Map.empty) (reject (TypeError ''Failed to fetch'')) None)
       = Inl (TypeError ''Failed to fetch'')
   \<and> snd (getContracts (load_module Map.empty) (respond bad_json) None)
       = Inl (SyntaxError ''Unexpected end of JSON input'')
   \<and> snd (getContract (load_module Map.empty) (reject (TypeError ''Failed to fetch'')) ''x'')
       = Inl (TypeError ''Failed to fetch'')
   \<and> snd (getContract (load_module Map.empty) (respond bad_json) ''x'')
       = Inl (SyntaxError ''Unexpected end of JSON input'')
   \<and> snd (getContractVersions (load_module Map.empty) (reject (TypeError ''Failed to fetch'')) ''x'')
       = Inl (TypeError ''Failed to fetch'')
   \<and> snd (getContractVersions (load_module Map.empty) (respond bad_json) ''x'')
       = Inl (SyntaxError ''Unexpected end of JSON input'')
   \<and> snd (publishContract (load_module Map.empty) (reject (TypeError ''Failed to fetch''))
            example_request)
       = Inl (TypeError ''Failed to fetch'')
   \<and> snd (publishContract (load_module Map.empty) (respond bad_json) example_request)
       = Inl (SyntaxError ''Unexpected end of JSON input'')
   \<and> snd (getPublisher (load_module Map.empty) (reject (TypeError ''Failed to fetch'')) ''x'')
       = Inl (TypeError ''Failed to fetch'')
   \<and> snd (getPublisher (load_module Map.empty) (respond bad_json) ''x'')
       = Inl (SyntaxError ''Unexpected end of JSON input'')
   \<and> snd (getPublisherContracts (load_module Map.empty) (reject (TypeError ''Failed to fetch''))
            ''x'')
       = Inl (TypeError ''Failed to fetch'')
   \<and> snd (getPublisherContracts (load_module Map.empty) (respond bad_json) ''x'')
       = Inl (SyntaxError ''Unexpected end of JSON input'')
   \<and> snd (getStats (load_module Map.empty) (reject (TypeError ''Failed to fetch'')))
       = Inl (TypeError ''Failed to fetch'')
   \<and> snd (getStats (load_module Map.empty) (respond bad_json))
       = Inl (SyntaxError ''Unexpected end of JSON input'')"
  using transport_failures_propagate
    [of bad_json "SyntaxError ''Unexpected end of JSON input''"
        "reject (TypeError ''Failed to fetch'')" "load_module Map.empty" None
        "TypeError ''Failed to fetch''" "respond bad_json" "''x''" example_request]
  by (simp add: ok_def respond_def reject_def bad_json_def)

subsection \<open>Successful responses\<close>

text \<open>
  Claim C3: when the server answers \<^verbatim>\<open>getContract(id)\<close> with a success status and a
  body that parses to a JSON value, \<^verbatim>\<open>getContract\<close> returns that very value: same
  keys, same values, same order, nothing renamed, converted or left out.
\<close>

theorem getContract_round_trip:
  assumes "fetch (API_URL m @ ''/api/contracts/'' @ id', None) = Inr response"
    and "ok response"
    and "json response = Inr payload"
  shows "snd (getContract m fetch id') = Inr payload"
  using assms by (simp add: getContract_def Let_def)

theorem getContract_round_trip_witness:
  "ok \<lparr>status = 200, json = Inr (JObj [(''id'', JStr ''x''), (''is_verified'', JBool True),
                                        (''tags'', JArr [JStr ''defi''])])\<rparr>
   \<and> snd (getContract (load_module Map.empty)
             (respond \<lparr>status = 200, json = Inr (JObj [(''id'', JStr ''x''),
                (''is_verified'', JBool True), (''tags'', JArr [JStr ''defi''])])\<rparr>) ''x'')
       = Inr (JObj [(''id'', JStr ''x''), (''is_verified'', JBool True),
                    (''tags'', JArr [JStr ''defi''])])"
  using getContract_round_trip
    [of "respond \<lparr>status = 200, json = Inr (JObj [(''id'', JStr ''x''),
                (''is_verified'', JBool True), (''tags'', JArr [JStr ''defi''])])\<rparr>"
        "load_module Map.empty" "''x''"
        "\<lparr>status = 200, json = Inr (JObj [(''id'', JStr ''x''),
                (''is_verified'', JBool True), (''tags'', JArr [JStr ''defi''])])\<rparr>"
        "JObj [(''id'', JStr ''x''), (''is_verified'', JBool True),
               (''tags'', JArr [JStr ''defi''])]"]
  by (simp add: ok_def respond_def)

text \<open>
  Claim C5, as the specification states it: every successful response makes
  \<^verbatim>\<open>getStats\<close> return a record of exactly the three numeric fields. The return type is
  a declaration only; the code returns what \<^verbatim>\<open>response.json()\<close> yields and checks
  nothing. A payload with a string for a counter and a fourth field comes back as it is.
\<close>

theorem getStats_shape_counterexample:
  "ok \<lparr>status = 200, json = Inr (JObj [(''total_contracts'', JStr ''7''),
         (''verified_contracts'', JNum 3), (''total_publishers'', JNum 2), (''uptime'', JNum 99)])\<rparr>
   \<and> snd (getStats (load_module Map.empty)
        (respond \<lparr>status = 200, json = Inr (JObj [(''total_contracts'', JStr ''7''),
         (''verified_contracts'', JNum 3), (''total_publishers'', JNum 2), (''uptime'', JNum 99)])\<rparr>))
     = Inr (JObj [(''total_contracts'', JStr ''7''),
         (''verified_contracts'', JNum 3), (''total_publishers'', JNum 2), (''uptime'', JNum 99)])
   \<and> \<not> stats_shape (JObj [(''total_contracts'', JStr ''7''),
         (''verified_contracts'', JNum 3), (''total_publishers'', JNum 2), (''uptime'', JNum 99)])"
  by (simp add: ok_def getStats_def respond_def stats_shape_def Let_def)

text \<open>
  Claim C5, amended: for every successful response to \<^verbatim>\<open>getStats\<close> whose body parses,
  the value returned is the parsed payload itself; it is a record of exactly the three
  numeric fields if and only if the payload the server sent is one.
\<close>

theorem getStats_returns_payload:
  assumes "fetch (API_URL m @ ''/api/stats'', None) = Inr response"
    and "ok response"
    and "json response = Inr payload"
  shows "\<exists>v. snd (getStats m fetch) = Inr v \<and> v = payload
           \<and> stats_shape v = stats_shape payload"
  using assms by (simp add: getStats_def Let_def)

theorem getStats_returns_payload_witness:
  "\<exists>v. snd (getStats (load_module Map.empty)
        (respond \<lparr>status = 200, json = Inr (JObj [(''total_contracts'', JNum 7),
         (''verified_contracts'', JNum 3), (''total_publishers'', JNum 2)])\<rparr>)) = Inr v
     \<and> stats_shape v"
  using getStats_returns_payload
    [of "respond \<lparr>status = 200, json = Inr (JObj [(''total_contracts'', JNum 7),
         (''verified_contracts'', JNum 3), (''total_publishers'', JNum 2)])\<rparr>"
        "load_module Map.empty"
        "\<lparr>status = 200, json = Inr (JObj [(''total_contracts'', JNum 7),
         (''verified_contracts'', JNum 3), (''total_publishers'', JNum 2)])\<rparr>"
        "JObj [(''total_contracts'', JNum 7),
         (''verified_contracts'', JNum 3), (''total_publishers'', JNum 2)]"]
  by (simp add: ok_def respond_def stats_shape_def is_number_def)

subsection \<open>The JSON text of a request\<close>

text \<open>
  The escape of a character never begins with a quote and no escape is a prefix of another,
  so a quoted string can be read back from the front of a text in one way only.
\<close>

lemma lower_hex_digit_inj: "lower_hex_digit a = lower_hex_digit b \<Longrightarrow> a mod 16 = b mod 16"
proof -
  have d: "distinct ''0123456789abcdef''" by simp
  assume "lower_hex_digit a = lower_hex_digit b"
  then show ?thesis
    unfolding lower_hex_digit_def
    using nth_eq_iff_index_eq [OF d, of "a mod 16" "b mod 16"] by simp
qed

lemma div_mod_16_eq: "x = (y :: nat)"
    if "x < 32" "y < 32" "x div 16 mod 16 = y div 16 mod 16" "x mod 16 = y mod 16"
proof -
  have "x div 16 < 2" "y div 16 < 2"
    using that(1,2) by (simp_all add: less_mult_imp_div_less)
  then have "x div 16 mod 16 = x div 16" "y div 16 mod 16 = y div 16" by simp_all
  with that(3) have "x div 16 = y div 16" by simp
  moreover have "x = x mod 16 + x div 16 * 16" "y = y mod 16 + y div 16 * 16" by simp_all
  ultimately show ?thesis using that(4) by metis
qed

lemma control_escape_inj:
  assumes "(of_char x :: nat) < 32" "(of_char y :: nat) < 32"
    and "lower_hex_digit (of_char x div 16) = lower_hex_digit (of_char y div 16)"
    and "lower_hex_digit (of_char x) = lower_hex_digit (of_char y)"
  shows "x = y"
proof -
  have "(of_char x :: nat) = of_char y"
    using assms(1,2) lower_hex_digit_inj [OF assms(3)] lower_hex_digit_inj [OF assms(4)]
    by (rule div_mod_16_eq)
  then show ?thesis by simp
qed

lemma of_char_same: "of_char x = (n :: nat) \<Longrightarrow> of_char y = n \<Longrightarrow> x = y"
  by (rule of_char_eqI [where ?'a = nat]) simp

lemma json_escape_char_cases:
  "json_escape_char c = [c] \<and> c \<noteq> CHR 0x5C \<and> c \<noteq> CHR 0x22
   \<or> json_escape_char c = [CHR 0x5C, CHR 0x22] \<and> c = CHR 0x22
   \<or> json_escape_char c = [CHR 0x5C, CHR 0x5C] \<and> c = CHR 0x5C
   \<or> json_escape_char c = [CHR 0x5C, CHR ''b''] \<and> c = CHR 0x08
   \<or> json_escape_char c = [CHR 0x5C, CHR ''f''] \<and> c = CHR 0x0C
   \<or> json_escape_char c = [CHR 0x5C, CHR ''n''] \<and> c = CHR 0x0A
   \<or> json_escape_char c = [CHR 0x5C, CHR ''r''] \<and> c = CHR 0x0D
   \<or> json_escape_char c = [CHR 0x5C, CHR ''t''] \<and> c = CHR 0x09
   \<or> json_escape_char c = [CHR 0x5C, CHR ''u'', CHR ''0'', CHR ''0'',
         lower_hex_digit (of_char c div 16), lower_hex_digit (of_char c)]
       \<and> (of_char c :: nat) < 32"
  using of_char_same [of c 34 "CHR 0x22"] of_char_same [of c 92 "CHR 0x5C"]
    of_char_same [of c 8 "CHR 0x08"] of_char_same [of c 12 "CHR 0x0C"]
    of_char_same [of c 10 "CHR 0x0A"] of_char_same [of c 13 "CHR 0x0D"]
    of_char_same [of c 9 "CHR 0x09"]
  by (auto simp: json_escape_char_def Let_def)

lemma json_escape_char_prefix_free:
  assumes "json_escape_char x @ r1 = json_escape_char y @ r2"
  shows "x = y \<and> r1 = r2"
  using json_escape_char_cases [of x] json_escape_char_cases [of y] assms
    control_escape_inj [of x y]
  by (elim disjE conjE) simp_all

lemma json_escape_char_head:
  "\<exists>h t. json_escape_char c = h # t \<and> h \<noteq> CHR 0x22"
  using json_escape_char_cases [of c] by auto

lemma escaped_prefix_free:
  "concat (map json_escape_char a) @ CHR 0x22 # r1 = concat (map json_escape_char b) @ CHR 0x22 # r2
   \<Longrightarrow> a = b \<and> r1 = r2"
proof (induction a arbitrary: b)
  case Nil
  show ?case
  proof (cases b)
    case Nil
    with Nil.prems show ?thesis by simp
  next
    case (Cons y ys)
    with Nil.prems json_escape_char_head [of y] show ?thesis by auto
  qed
next
  case (Cons x xs)
  show ?case
  proof (cases b)
    case Nil
    with Cons.prems json_escape_char_head [of x] show ?thesis by auto
  next
    case (Cons y ys)
    with Cons.prems have
      "json_escape_char x @ (concat (map json_escape_char xs) @ CHR 0x22 # r1)
       = json_escape_char y @ (concat (map json_escape_char ys) @ CHR 0x22 # r2)"
      by simp
    then have "x = y" and
      "concat (map json_escape_char xs) @ CHR 0x22 # r1
       = concat (map json_escape_char ys) @ CHR 0x22 # r2"
      using json_escape_char_prefix_free by blast+
    with Cons.IH [of ys] Cons show ?thesis by simp
  qed
qed

lemma quote_prefix_free: "(quote a @ r1 = quote b @ r2) = (a = b \<and> r1 = r2)"
  using escaped_prefix_free [of a r1 b r2] by (auto simp: quote_def)

lemma quote_inj: "(quote a = quote b) = (a = b)"
  using quote_prefix_free [of a "[]" b "[]"] by simp

lemma quote_not_bracket:
  "CHR '']'' # r \<noteq> quote a @ s" "quote a @ s \<noteq> CHR '']'' # r"
  by (simp_all add: quote_def)

lemma join_Cons: "join sep (x # xs) = x @ (if xs = [] then [] else sep @ join sep xs)"
  by (cases xs) simp_all

lemma quoted_list_prefix_free:
  "(join '','' (map quote ts) @ CHR '']'' # r1 = join '','' (map quote ts') @ CHR '']'' # r2)
   = (ts = ts' \<and> r1 = r2)"
proof (induction ts arbitrary: ts')
  case Nil
  show ?case by (cases ts') (simp_all add: join_Cons quote_not_bracket)
next
  case (Cons t ts)
  show ?case
  proof (cases ts')
    case Nil
    then show ?thesis by (simp add: join_Cons quote_not_bracket)
  next
    case (Cons t' ts1)
    with Cons.IH [of ts1] show ?thesis by (auto simp: join_Cons quote_prefix_free)
  qed
qed


text \<open>
  The text of an object, member by member: the names written are those of the properties
  that have a text, in their order, and under each name stands the text of its value.
\<close>

lemma members_text:
  "map (\<lambda>m. quote (fst m) @ '':'' @ snd m) (members ps) =
     concat (map (\<lambda>p. case JSON_stringify (snd p) of
                         None \<Rightarrow> []
                       | Some text \<Rightarrow> [quote (fst p) @ '':'' @ text]) ps)"
  by (induction ps) (auto simp: members_def split: option.splits)

lemma JSON_stringify_object:
  "JSON_stringify (VObj ps) =
     Some (''{'' @ join '','' (map (\<lambda>m. quote (fst m) @ '':'' @ snd m) (members ps)) @ ''}'')"
  by (simp only: JSON_stringify.simps members_text)

lemma members_keys:
  "map fst (members ps) = map fst (filter (\<lambda>p. JSON_stringify (snd p) \<noteq> None) ps)"
  by (induction ps) (auto simp: members_def split: option.splits)

lemma set_members:
  "set (members ps) = {(k, text). \<exists>v. (k, v) \<in> set ps \<and> JSON_stringify v = Some text}"
  by (induction ps) (auto simp: members_def split: option.splits)

lemma distinct_members: "distinct (map fst ps) \<Longrightarrow> distinct (map fst (members ps))"
  unfolding members_keys by (simp add: distinct_map_filter)

lemma map_of_members:
  assumes "distinct (map fst ps)"
  shows "map_of (members ps) k = Option.bind (map_of ps k) JSON_stringify"
proof (cases "map_of ps k")
  case None
  then have "k \<notin> fst ` set ps" by (simp add: map_of_eq_None_iff)
  then have "k \<notin> fst ` set (members ps)" by (force simp: set_members)
  then have "map_of (members ps) k = None" by (simp add: map_of_eq_None_iff)
  then show ?thesis using None by simp
next
  case (Some v)
  then have in_ps: "(k, v) \<in> set ps" by (rule map_of_SomeD)
  show ?thesis
  proof (cases "JSON_stringify v")
    case None
    have "k \<notin> fst ` set (members ps)"
    proof
      assume "k \<in> fst ` set (members ps)"
      then obtain t v' where "(k, v') \<in> set ps" "JSON_stringify v' = Some t"
        by (auto simp: set_members)
      with assms in_ps have "v' = v" by (meson eq_key_imp_eq_value)
      with None \<open>JSON_stringify v' = Some t\<close> show False by simp
    qed
    then have "map_of (members ps) k = None" by (simp add: map_of_eq_None_iff)
    then show ?thesis using Some None by simp
  next
    case (Some t)
    with in_ps have "(k, t) \<in> set (members ps)" by (auto simp: set_members)
    with distinct_members [OF assms] have "map_of (members ps) k = Some t" by simp
    then show ?thesis using Some \<open>map_of ps k = Some v\<close> by simp
  qed
qed

text \<open>
  Members whose values are strings or arrays of strings can be read back from the front of
  a text in one way only, and so can a whole object of such members.
\<close>

lemma string_array_cases: "list_all is_VStr vs \<Longrightarrow> \<exists>ss. vs = map VStr ss"
proof (induction vs)
  case Nil
  then show ?case by simp
next
  case (Cons v vs)
  then obtain ss where "vs = map VStr ss" by auto
  moreover from Cons.prems obtain s where "v = VStr s"
    by (cases v) (simp_all add: is_VStr_def)
  ultimately have "v # vs = map VStr (s # ss)" by simp
  then show ?case by (rule exI [of _ "s # ss"])
qed

lemma plain_value_cases:
  assumes "plain_value v"
  obtains s where "v = VStr s" | ss where "v = VArr (map VStr ss)"
  using assms string_array_cases by (cases v) (auto simp: plain_value_def)

lemma stringify_string_array:
  "JSON_stringify (VArr (map VStr ss)) = Some (''['' @ join '','' (map quote ss) @ '']'')"
  by (simp add: o_def)

lemma quote_shape:
  "quote a @ s \<noteq> CHR ''['' # r" "CHR ''['' # r \<noteq> quote a @ s"
  "quote a @ s \<noteq> CHR ''}'' # r" "CHR ''}'' # r \<noteq> quote a @ s"
  by (simp_all add: quote_def)

lemma plain_member_prefix_free:
  assumes "plain_value v" "plain_value v'"
  shows "(quote k @ '':'' @ the (JSON_stringify v) @ r
          = quote k' @ '':'' @ the (JSON_stringify v') @ r')
         = (k = k' \<and> v = v' \<and> r = r')"
proof -
  have inj: "(map VStr ss = map VStr ss') = (ss = ss')" for ss ss'
    by (simp add: inj_map_eq_map inj_on_def)
  from assms(1) show ?thesis
  proof (cases v rule: plain_value_cases)
    case (1 s)
    from assms(2) show ?thesis
    proof (cases v' rule: plain_value_cases)
      case (1 s')
      with \<open>v = VStr s\<close> show ?thesis by (auto simp: quote_prefix_free)
    next
      case (2 ss')
      with \<open>v = VStr s\<close> show ?thesis
        by (auto simp: quote_prefix_free quote_shape stringify_string_array
            simp del: JSON_stringify.simps(6))
    qed
  next
    case (2 ss)
    from assms(2) show ?thesis
    proof (cases v' rule: plain_value_cases)
      case (1 s')
      with \<open>v = VArr (map VStr ss)\<close> show ?thesis
        by (auto simp: quote_prefix_free quote_shape stringify_string_array
            simp del: JSON_stringify.simps(6))
    next
      case (2 ss')
      with \<open>v = VArr (map VStr ss)\<close> show ?thesis
        by (auto simp: quote_prefix_free quoted_list_prefix_free stringify_string_array inj
            simp del: JSON_stringify.simps(6))
    qed
  qed
qed

lemma plain_value_text: "plain_value v \<Longrightarrow> \<exists>t. JSON_stringify v = Some t"
  by (cases v) (simp_all add: plain_value_def)

lemma plain_members:
  "list_all (\<lambda>p. plain_value (snd p)) ps
   \<Longrightarrow> map (\<lambda>m. quote (fst m) @ '':'' @ snd m) (members ps)
       = map (\<lambda>p. quote (fst p) @ '':'' @ the (JSON_stringify (snd p))) ps"
proof (induction ps)
  case Nil
  then show ?case by (simp add: members_def)
next
  case (Cons p ps)
  then obtain t where "JSON_stringify (snd p) = Some t"
    using plain_value_text [of "snd p"] by auto
  with Cons show ?case by (simp add: members_def)
qed

lemma plain_member_tail:
  assumes "plain_value v" "plain_value v'"
  shows "(quote k @ CHR '':'' # the (JSON_stringify v) @ r
          = quote k' @ CHR '':'' # the (JSON_stringify v') @ r')
         = (k = k' \<and> v = v' \<and> r = r')"
  using plain_member_prefix_free [OF assms, of k r k' r'] by simp

lemma plain_members_prefix_free:
  assumes "list_all (\<lambda>p. plain_value (snd p)) ps" "list_all (\<lambda>p. plain_value (snd p)) ps'"
  shows "(join '','' (map (\<lambda>p. quote (fst p) @ '':'' @ the (JSON_stringify (snd p))) ps)
            @ CHR ''}'' # r
          = join '','' (map (\<lambda>p. quote (fst p) @ '':'' @ the (JSON_stringify (snd p))) ps')
            @ CHR ''}'' # r')
         = (ps = ps' \<and> r = r')"
  using assms
proof (induction ps arbitrary: ps')
  case Nil
  show ?case by (cases ps') (simp_all add: join_Cons quote_shape)
next
  case (Cons p ps)
  show ?case
  proof (cases ps')
    case Nil
    then show ?thesis by (simp add: join_Cons quote_shape)
  next
    case (Cons p' ps1)
    with Cons.prems have plain: "plain_value (snd p)" "plain_value (snd p')"
      and rest: "list_all (\<lambda>p. plain_value (snd p)) ps" "list_all (\<lambda>p. plain_value (snd p)) ps1"
      by simp_all
    have eq: "(p = p') = (fst p = fst p' \<and> snd p = snd p')"
      by (simp add: prod_eq_iff)
    from Cons.IH [OF rest] Cons show ?thesis
      by (auto simp: join_Cons plain_member_tail [OF plain] eq
          simp del: JSON_stringify.simps)
  qed
qed

lemma plain_object_inj:
  assumes "plain_object data" "plain_object data'"
  shows "(JSON_stringify data = JSON_stringify data') = (data = data')"
proof -
  from assms obtain ps ps' where d: "data = VObj ps" "data' = VObj ps'"
    and plain: "list_all (\<lambda>p. plain_value (snd p)) ps" "list_all (\<lambda>p. plain_value (snd p)) ps'"
    by (cases data; cases data') (simp_all add: plain_object_def)
  show ?thesis
    unfolding d JSON_stringify_object plain_members [OF plain(1)] plain_members [OF plain(2)]
    using plain_members_prefix_free [OF plain, of "[]" "[]"] by simp
qed

text \<open>The fields of a \<^verbatim>\<open>PublishRequest\<close>, as they are written.\<close>

lemma no_text_iff: "(JSON_stringify v = None) = (v = VUndefined)"
  by (cases v) simp_all

lemma members_keys_defined:
  "map fst (members ps) = map fst (filter (\<lambda>p. snd p \<noteq> VUndefined) ps)"
  unfolding members_keys by (simp add: no_text_iff)

lemma string_field:
  assumes "distinct (map fst ps)" "is_string (map_of ps k)"
  shows "\<exists>s. map_of ps k = Some (VStr s) \<and> map_of (members ps) k = Some (quote s)"
  using assms(2) unfolding map_of_members [OF assms(1)]
  by (auto simp: is_string_def split: option.splits js_value.splits)

lemma network_field:
  assumes "distinct (map fst ps)" "is_network (map_of ps k)"
  shows "\<exists>s. map_of ps k = Some (VStr s) \<and> map_of (members ps) k = Some (quote s)
           \<and> (s = ''mainnet'' \<or> s = ''testnet'' \<or> s = ''futurenet'')"
  using assms(2) unfolding map_of_members [OF assms(1)]
  by (auto simp: is_network_def split: option.splits js_value.splits)

lemma optional_string_field:
  assumes "distinct (map fst ps)" "is_optional_string (map_of ps k)"
  shows "(map_of ps k = None \<or> map_of ps k = Some VUndefined) \<and> map_of (members ps) k = None
         \<or> (\<exists>s. map_of ps k = Some (VStr s) \<and> map_of (members ps) k = Some (quote s))"
  using assms(2) unfolding map_of_members [OF assms(1)]
  by (auto simp: is_optional_string_def split: option.splits js_value.splits)

lemma string_array_field:
  assumes "distinct (map fst ps)" "is_string_array (map_of ps k)"
  shows "\<exists>ts. map_of ps k = Some (VArr (map VStr ts))
           \<and> map_of (members ps) k = Some (''['' @ join '','' (map quote ts) @ '']'')"
proof -
  from assms(2) obtain vs where vs: "map_of ps k = Some (VArr vs)" "list_all is_VStr vs"
    by (auto simp: is_string_array_def split: option.splits js_value.splits)
  then obtain ts where "vs = map VStr ts" using string_array_cases by blast
  with vs show ?thesis
    unfolding map_of_members [OF assms(1)]
    by (intro exI [of _ ts]) (simp add: stringify_string_array del: JSON_stringify.simps(6))
qed

subsection \<open>Requests\<close>

text \<open>
  Claim C4: \<^verbatim>\<open>publishContract\<close> issues one request: a \<^verbatim>\<open>POST\<close> to the base URL
  followed by \<^verbatim>\<open>/api/contracts\<close>, with the header \<^verbatim>\<open>Content-Type: application/json\<close>
  and, as its body, \<^verbatim>\<open>JSON.stringify\<close> of the value it was given, whatever that value
  is. For a value of the interface \<^verbatim>\<open>PublishRequest\<close> the body is the text of an
  object whose members are the properties of the value that are not \<^verbatim>\<open>undefined\<close>,
  in the order the value has them; under every name stands the text of the value the
  request holds under that name, and a name the request does not hold is not written. So
  the five required fields are always written, as quoted strings (\<^verbatim>\<open>tags\<close> as an array
  of them), and each optional field is written when it is a string and left out when it is
  absent or \<^verbatim>\<open>undefined\<close>. Two requests whose properties are strings or arrays of
  strings have the same body only when they are the same value.
\<close>

theorem publishContract_request:
  "fst (publishContract m fetch data) =
     [(API_URL m @ ''/api/contracts'',
       Some \<lparr>method' = ''POST'',
             headers = [(''Content-Type'', ''application/json'')],
             body = JSON_stringify data\<rparr>)]
   \<and> map request_method (fst (publishContract m fetch data)) = [''POST'']
   \<and> (is_PublishRequest data \<longrightarrow>
        (\<exists>ps. data = VObj ps
          \<and> JSON_stringify data
              = Some (''{'' @ join '','' (map (\<lambda>m. quote (fst m) @ '':'' @ snd m) (members ps))
                      @ ''}'')
          \<and> map fst (members ps) = map fst (filter (\<lambda>p. snd p \<noteq> VUndefined) ps)
          \<and> (\<forall>k. map_of (members ps) k = Option.bind (map_of ps k) JSON_stringify)
          \<and> (\<exists>s. map_of ps ''contract_id'' = Some (VStr s)
                \<and> map_of (members ps) ''contract_id'' = Some (quote s))
          \<and> (\<exists>s. map_of ps ''name'' = Some (VStr s)
                \<and> map_of (members ps) ''name'' = Some (quote s))
          \<and> ((map_of ps ''description'' = None \<or> map_of ps ''description'' = Some VUndefined)
                \<and> map_of (members ps) ''description'' = None
              \<or> (\<exists>s. map_of ps ''description'' = Some (VStr s)
                    \<and> map_of (members ps) ''description'' = Some (quote s)))
          \<and> (\<exists>s. map_of ps ''network'' = Some (VStr s)
                \<and> map_of (members ps) ''network'' = Some (quote s)
                \<and> (s = ''mainnet'' \<or> s = ''testnet'' \<or> s = ''futurenet''))
          \<and> ((map_of ps ''category'' = None \<or> map_of ps ''category'' = Some VUndefined)
                \<and> map_of (members ps) ''category'' = None
              \<or> (\<exists>s. map_of ps ''category'' = Some (VStr s)
                    \<and> map_of (members ps) ''category'' = Some (quote s)))
          \<and> (\<exists>ts. map_of ps ''tags'' = Some (VArr (map VStr ts))
                \<and> map_of (members ps) ''tags''
                    = Some (''['' @ join '','' (map quote ts) @ '']''))
          \<and> ((map_of ps ''source_url'' = None \<or> map_of ps ''source_url'' = Some VUndefined)
                \<and> map_of (members ps) ''source_url'' = None
              \<or> (\<exists>s. map_of ps ''source_url'' = Some (VStr s)
                    \<and> map_of (members ps) ''source_url'' = Some (quote s)))
          \<and> (\<exists>s. map_of ps ''publisher_address'' = Some (VStr s)
                \<and> map_of (members ps) ''publisher_address'' = Some (quote s))))
   \<and> (plain_object data \<and> plain_object data'
        \<longrightarrow> (JSON_stringify data = JSON_stringify data') = (data = data'))"
proof (intro conjI impI)
  show "fst (publishContract m fetch data) =
     [(API_URL m @ ''/api/contracts'',
       Some \<lparr>method' = ''POST'',
             headers = [(''Content-Type'', ''application/json'')],
             body = JSON_stringify data\<rparr>)]"
    by (simp add: publishContract_def Let_def)
  show "map request_method (fst (publishContract m fetch data)) = [''POST'']"
    by (simp add: publishContract_def Let_def request_method_def)
next
  assume "plain_object data \<and> plain_object data'"
  then show "(JSON_stringify data = JSON_stringify data') = (data = data')"
    using plain_object_inj by blast
next
  assume typed: "is_PublishRequest data"
  then obtain ps where d: "data = VObj ps"
    by (cases data) (simp_all add: is_PublishRequest_def)
  with typed have dist: "distinct (map fst ps)"
    and f: "is_string (map_of ps ''contract_id'')" "is_string (map_of ps ''name'')"
      "is_optional_string (map_of ps ''description'')" "is_network (map_of ps ''network'')"
      "is_optional_string (map_of ps ''category'')" "is_string_array (map_of ps ''tags'')"
      "is_optional_string (map_of ps ''source_url'')"
      "is_string (map_of ps ''publisher_address'')"
    by (simp_all add: is_PublishRequest_def)
  have t: "JSON_stringify data
      = Some (''{'' @ join '','' (map (\<lambda>m. quote (fst m) @ '':'' @ snd m) (members ps)) @ ''}'')"
    unfolding d by (rule JSON_stringify_object)
  have all: "\<forall>k. map_of (members ps) k = Option.bind (map_of ps k) JSON_stringify"
    using map_of_members [OF dist] by blast
  from d t members_keys_defined [of ps] all
    string_field [OF dist f(1)] string_field [OF dist f(2)]
    optional_string_field [OF dist f(3)] network_field [OF dist f(4)]
    optional_string_field [OF dist f(5)] string_array_field [OF dist f(6)]
    optional_string_field [OF dist f(7)] string_field [OF dist f(8)]
  show "\<exists>ps. data = VObj ps
          \<and> JSON_stringify data
              = Some (''{'' @ join '','' (map (\<lambda>m. quote (fst m) @ '':'' @ snd m) (members ps))
                      @ ''}'')
          \<and> map fst (members ps) = map fst (filter (\<lambda>p. snd p \<noteq> VUndefined) ps)
          \<and> (\<forall>k. map_of (members ps) k = Option.bind (map_of ps k) JSON_stringify)
          \<and> (\<exists>s. map_of ps ''contract_id'' = Some (VStr s)
                \<and> map_of (members ps) ''contract_id'' = Some (quote s))
          \<and> (\<exists>s. map_of ps ''name'' = Some (VStr s)
                \<and> map_of (members ps) ''name'' = Some (quote s))
          \<and> ((map_of ps ''description'' = None \<or> map_of ps ''description'' = Some VUndefined)
                \<and> map_of (members ps) ''description'' = None
              \<or> (\<exists>s. map_of ps ''description'' = Some (VStr s)
                    \<and> map_of (members ps) ''description'' = Some (quote s)))
          \<and> (\<exists>s. map_of ps ''network'' = Some (VStr s)
                \<and> map_of (members ps) ''network'' = Some (quote s)
                \<and> (s = ''mainnet'' \<or> s = ''testnet'' \<or> s = ''futurenet''))
          \<and> ((map_of ps ''category'' = None \<or> map_of ps ''category'' = Some VUndefined)
                \<and> map_of (members ps) ''category'' = None
              \<or> (\<exists>s. map_of ps ''category'' = Some (VStr s)
                    \<and> map_of (members ps) ''category'' = Some (quote s)))
          \<and> (\<exists>ts. map_of ps ''tags'' = Some (VArr (map VStr ts))
                \<and> map_of (members ps) ''tags''
                    = Some (''['' @ join '','' (map quote ts) @ '']''))
          \<and> ((map_of ps ''source_url'' = None \<or> map_of ps ''source_url'' = Some VUndefined)
                \<and> map_of (members ps) ''source_url'' = None
              \<or> (\<exists>s. map_of ps ''source_url'' = Some (VStr s)
                    \<and> map_of (members ps) ''source_url'' = Some (quote s)))
          \<and> (\<exists>s. map_of ps ''publisher_address'' = Some (VStr s)
                \<and> map_of (members ps) ''publisher_address'' = Some (quote s))"
    by (intro exI [of _ ps] conjI) assumption+
qed

text \<open>
  The example request has its properties out of the interface's order, a
  \<^verbatim>\<open>description\<close> that is \<^verbatim>\<open>undefined\<close> and a property \<^verbatim>\<open>draft\<close> the interface
  does not name: the body keeps the order, leaves \<^verbatim>\<open>description\<close> out and carries
  \<^verbatim>\<open>draft\<close>. Two plain objects that differ only in the order of their properties have
  different bodies.
\<close>

theorem publishContract_request_witness:
  "is_PublishRequest example_request
   \<and> fst (publishContract (load_module Map.empty) (respond not_found) example_request) =
       [(''http://localhost:3001/api/contracts'',
         Some \<lparr>method' = ''POST'',
               headers = [(''Content-Type'', ''application/json'')],
               body = Some (''{'' @ quote ''name'' @ '':'' @ quote ''token''
                 @ '','' @ quote ''contract_id'' @ '':'' @ quote ''CA3D''
                 @ '','' @ quote ''network'' @ '':'' @ quote ''testnet''
                 @ '','' @ quote ''tags'' @ '':'' @ ''['' @ quote ''sep41'' @ '','' @ quote ''a b''
                 @ '']''
                 @ '','' @ quote ''publisher_address'' @ '':'' @ quote ''GB7T''
                 @ '','' @ quote ''draft'' @ '':true}'')\<rparr>)]
   \<and> quote ''a b'' = [CHR 0x22, CHR ''a'', CHR '' '', CHR ''b'', CHR 0x22]
   \<and> plain_object (VObj [(''name'', VStr ''a''), (''tags'', VArr [VStr ''x''])])
   \<and> plain_object (VObj [(''tags'', VArr [VStr ''x'']), (''name'', VStr ''a'')])
   \<and> JSON_stringify (VObj [(''name'', VStr ''a''), (''tags'', VArr [VStr ''x''])])
       \<noteq> JSON_stringify (VObj [(''tags'', VArr [VStr ''x'']), (''name'', VStr ''a'')])"
proof -
  have typed: "is_PublishRequest example_request"
    by (simp add: example_request_def is_PublishRequest_def is_string_def
        is_optional_string_def is_network_def is_string_array_def is_VStr_def)
  have plain: "plain_object (VObj [(''name'', VStr ''a''), (''tags'', VArr [VStr ''x''])])
      \<and> plain_object (VObj [(''tags'', VArr [VStr ''x'']), (''name'', VStr ''a'')])"
    by (simp add: plain_object_def plain_value_def is_VStr_def)
  have request:
    "fst (publishContract (load_module Map.empty) (respond not_found) example_request) =
       [(API_URL (load_module Map.empty) @ ''/api/contracts'',
         Some \<lparr>method' = ''POST'',
               headers = [(''Content-Type'', ''application/json'')],
               body = JSON_stringify example_request\<rparr>)]"
    using publishContract_request
      [of "load_module Map.empty" "respond not_found" example_request example_request]
    by blast
  have differ: "(JSON_stringify (VObj [(''name'', VStr ''a''), (''tags'', VArr [VStr ''x''])])
       = JSON_stringify (VObj [(''tags'', VArr [VStr ''x'']), (''name'', VStr ''a'')]))
     = (VObj [(''name'', VStr ''a''), (''tags'', VArr [VStr ''x''])]
       = VObj [(''tags'', VArr [VStr ''x'']), (''name'', VStr ''a'')])"
    using plain publishContract_request
      [of "load_module Map.empty" "respond not_found"
          "VObj [(''name'', VStr ''a''), (''tags'', VArr [VStr ''x''])]"
          "VObj [(''tags'', VArr [VStr ''x'']), (''name'', VStr ''a'')]"]
    by blast
  have q: "quote ''a b'' = [CHR 0x22, CHR ''a'', CHR '' '', CHR ''b'', CHR 0x22]"
    by (simp add: quote_def json_escape_char_def)
  have body: "JSON_stringify example_request =
      Some (''{'' @ quote ''name'' @ '':'' @ quote ''token''
                 @ '','' @ quote ''contract_id'' @ '':'' @ quote ''CA3D''
                 @ '','' @ quote ''network'' @ '':'' @ quote ''testnet''
                 @ '','' @ quote ''tags'' @ '':'' @ ''['' @ quote ''sep41'' @ '','' @ quote ''a b''
                 @ '']''
                 @ '','' @ quote ''publisher_address'' @ '':'' @ quote ''GB7T''
                 @ '','' @ quote ''draft'' @ '':true}'')"
    by (simp add: example_request_def String_boolean_def)
  have url: "API_URL (load_module Map.empty) = ''http://localhost:3001''"
    by (simp add: load_module_def)
  from differ have ne:
    "JSON_stringify (VObj [(''name'', VStr ''a''), (''tags'', VArr [VStr ''x''])])
       \<noteq> JSON_stringify (VObj [(''tags'', VArr [VStr ''x'']), (''name'', VStr ''a'')])"
    by simp
  from typed request plain q ne show ?thesis
    unfolding body url by simp
qed

text \<open>
  Claim C8: \<^verbatim>\<open>getContracts({})\<close> issues one request, a \<^verbatim>\<open>GET\<close> to the base URL
  followed by \<^verbatim>\<open>/api/contracts?\<close>, with nothing after the question mark.
\<close>

theorem getContracts_empty_params:
  "fst (getContracts m fetch
         (Some \<lparr>query = None, network = None, verified_only = None, category = None,
                tags = None, page = None, page_size = None\<rparr>))
     = [(API_URL m @ ''/api/contracts?'', None)]
   \<and> request_method (API_URL m @ ''/api/contracts?'', None) = ''GET''"
  by (simp add: getContracts_def getContracts_queryParams_def toString_def request_method_def
      Let_def)

text \<open>
  Claim C9: the four operations that take an id put it into the URL as it is: base URL,
  fixed path, raw id, nothing encoded. So an id with a reserved character changes the path
  that is requested: \<^verbatim>\<open>getContract\<close> with the id \<^verbatim>\<open>x/versions\<close> issues the request of
  \<^verbatim>\<open>getContractVersions\<close> with the id \<^verbatim>\<open>x\<close>, and with the id \<^verbatim>\<open>a/b\<close> the path
  has two segments after \<^verbatim>\<open>/api/contracts\<close> instead of one; likewise for publishers.
  With the id \<^verbatim>\<open>x?y\<close> or \<^verbatim>\<open>x#y\<close> the path requested is that of the contract
  \<^verbatim>\<open>x\<close>, the rest of the id being read as a query or a fragment.
\<close>

theorem ids_are_concatenated_raw:
  "fst (getContract m fetch id') = [(API_URL m @ ''/api/contracts/'' @ id', None)]
   \<and> fst (getContractVersions m fetch id')
       = [(API_URL m @ ''/api/contracts/'' @ id' @ ''/versions'', None)]
   \<and> fst (getPublisher m fetch id') = [(API_URL m @ ''/api/publishers/'' @ id', None)]
   \<and> fst (getPublisherContracts m fetch id')
       = [(API_URL m @ ''/api/publishers/'' @ id' @ ''/contracts'', None)]
   \<and> fst (getContract m fetch ''x/versions'') = fst (getContractVersions m fetch ''x'')
   \<and> fst (getPublisher m fetch ''x/contracts'') = fst (getPublisherContracts m fetch ''x'')
   \<and> (\<exists>path. fst (getContract m fetch ''a/b'') = [(API_URL m @ path, None)]
         \<and> path_segments path = [[], ''api'', ''contracts'', ''a'', ''b''])
   \<and> (\<exists>path. fst (getPublisher m fetch ''a/b'') = [(API_URL m @ path, None)]
         \<and> path_segments path = [[], ''api'', ''publishers'', ''a'', ''b''])
   \<and> (\<exists>rest. fst (getContract m fetch ''x?y'') = [(API_URL m @ rest, None)]
         \<and> path_of rest = ''/api/contracts/x'')
   \<and> (\<exists>rest. fst (getContract m fetch ''x#y'') = [(API_URL m @ rest, None)]
         \<and> path_of rest = ''/api/contracts/x'')"
  by (simp add: getContract_def getContractVersions_def getPublisher_def
      getPublisherContracts_def Let_def path_segments_def path_of_def)

subsection \<open>The base URL\<close>

text \<open>
  Claim C6: the base URL is the one value the module computed from the environment when it
  was loaded. It is \<^verbatim>\<open>http://localhost:3001\<close> when the variable
  \<^verbatim>\<open>NEXT_PUBLIC_API_URL\<close> is unset, it is the value of the variable when that is set
  and not empty, and it depends on nothing else of the environment: two environments that
  agree on the variable load the same module. The URL of every request of every operation
  is that value followed by the operation's path, so a module loaded with the variable set
  to \<open>v\<close> sends its requests to \<open>v\<close> followed by the path.
\<close>

theorem base_url_prefixes_every_request:
  "(process_env ''NEXT_PUBLIC_API_URL'' = None
      \<longrightarrow> API_URL (load_module process_env) = ''http://localhost:3001'')
   \<and> (process_env' ''NEXT_PUBLIC_API_URL'' = Some v \<and> v \<noteq> []
      \<longrightarrow> API_URL (load_module process_env') = v
        \<and> map fst (fst (getContracts (load_module process_env') fetch params))
            = [v @ ''/api/contracts?'' @ toString (getContracts_queryParams params)]
        \<and> map fst (fst (getContract (load_module process_env') fetch id'))
            = [v @ ''/api/contracts/'' @ id']
        \<and> map fst (fst (getContractVersions (load_module process_env') fetch id'))
            = [v @ ''/api/contracts/'' @ id' @ ''/versions'']
        \<and> map fst (fst (publishContract (load_module process_env') fetch data))
            = [v @ ''/api/contracts'']
        \<and> map fst (fst (getPublisher (load_module process_env') fetch id'))
            = [v @ ''/api/publishers/'' @ id']
        \<and> map fst (fst (getPublisherContracts (load_module process_env') fetch id'))
            = [v @ ''/api/publishers/'' @ id' @ ''/contracts'']
        \<and> map fst (fst (getStats (load_module process_env') fetch)) = [v @ ''/api/stats''])
   \<and> (process_env ''NEXT_PUBLIC_API_URL'' = process_env' ''NEXT_PUBLIC_API_URL''
      \<longrightarrow> load_module process_env = load_module process_env')
   \<and> map fst (fst (getContracts m fetch params))
       = [API_URL m @ ''/api/contracts?'' @ toString (getContracts_queryParams params)]
   \<and> map fst (fst (getContract m fetch id')) = [API_URL m @ ''/api/contracts/'' @ id']
   \<and> map fst (fst (getContractVersions m fetch id'))
       = [API_URL m @ ''/api/contracts/'' @ id' @ ''/versions'']
   \<and> map fst (fst (publishContract m fetch data)) = [API_URL m @ ''/api/contracts'']
   \<and> map fst (fst (getPublisher m fetch id')) = [API_URL m @ ''/api/publishers/'' @ id']
   \<and> map fst (fst (getPublisherContracts m fetch id'))
       = [API_URL m @ ''/api/publishers/'' @ id' @ ''/contracts'']
   \<and> map fst (fst (getStats m fetch)) = [API_URL m @ ''/api/stats'']"
  by (simp add: load_module_def getContracts_def getContract_def getContractVersions_def
      publishContract_def getPublisher_def getPublisherContracts_def getStats_def Let_def)

theorem base_url_prefixes_every_request_witness:
  "Map.empty ''NEXT_PUBLIC_API_URL'' = (None :: string option)
   \<and> API_URL (load_module Map.empty) = ''http://localhost:3001''
   \<and> [''NEXT_PUBLIC_API_URL'' \<mapsto> ''https://registry.example.org'']
        ''NEXT_PUBLIC_API_URL'' = Some ''https://registry.example.org''
   \<and> API_URL (load_module [''NEXT_PUBLIC_API_URL'' \<mapsto> ''https://registry.example.org''])
       = ''https://registry.example.org''
   \<and> map fst (fst (getContract
         (load_module [''NEXT_PUBLIC_API_URL'' \<mapsto> ''https://registry.example.org''])
         (reject (TypeError ''Failed to fetch'')) ''x''))
       = [''https://registry.example.org/api/contracts/x'']
   \<and> map fst (fst (getStats (load_module Map.empty) (reject (TypeError ''Failed to fetch''))))
       = [''http://localhost:3001/api/stats'']
   \<and> load_module [''NEXT_PUBLIC_API_URL'' \<mapsto> ''https://registry.example.org'', ''PORT'' \<mapsto> ''80'']
       = load_module [''NEXT_PUBLIC_API_URL'' \<mapsto> ''https://registry.example.org'']"
proof -
  have urls:
    "API_URL (load_module Map.empty) = ''http://localhost:3001''
     \<and> API_URL (load_module [''NEXT_PUBLIC_API_URL'' \<mapsto> ''https://registry.example.org''])
         = ''https://registry.example.org''
     \<and> map fst (fst (getContract
           (load_module [''NEXT_PUBLIC_API_URL'' \<mapsto> ''https://registry.example.org''])
           (reject (TypeError ''Failed to fetch'')) ''x''))
         = [''https://registry.example.org/api/contracts/x'']
     \<and> map fst (fst (getStats (load_module Map.empty) (reject (TypeError ''Failed to fetch''))))
         = [''http://localhost:3001/api/stats'']"
    using base_url_prefixes_every_request
      [of Map.empty "[''NEXT_PUBLIC_API_URL'' \<mapsto> ''https://registry.example.org'']"
          "''https://registry.example.org''" "reject (TypeError ''Failed to fetch'')" None
          "''x''" example_request "load_module Map.empty"]
    by simp
  have same:
    "load_module [''NEXT_PUBLIC_API_URL'' \<mapsto> ''https://registry.example.org'', ''PORT'' \<mapsto> ''80'']
       = load_module [''NEXT_PUBLIC_API_URL'' \<mapsto> ''https://registry.example.org'']"
    using base_url_prefixes_every_request
      [of "[''NEXT_PUBLIC_API_URL'' \<mapsto> ''https://registry.example.org'', ''PORT'' \<mapsto> ''80'']"
          "[''NEXT_PUBLIC_API_URL'' \<mapsto> ''https://registry.example.org'']"
          "''https://registry.example.org''" "reject (TypeError ''Failed to fetch'')" None
          "''x''" example_request "load_module Map.empty"]
    by simp
  from urls same show ?thesis by simp
qed

text \<open>
  Claim C10: a variable that is set to the empty string gives the default base URL, as an
  unset variable does: the module loaded is the one loaded with the variable removed.
\<close>

theorem empty_env_value_falls_back:
  assumes "process_env ''NEXT_PUBLIC_API_URL'' = Some []"
  shows "API_URL (load_module process_env) = ''http://localhost:3001''
       \<and> load_module process_env = load_module (process_env(''NEXT_PUBLIC_API_URL'' := None))"
  using assms by (simp add: load_module_def)

theorem empty_env_value_falls_back_witness:
  "[''NEXT_PUBLIC_API_URL'' \<mapsto> []] ''NEXT_PUBLIC_API_URL'' = Some []
   \<and> API_URL (load_module [''NEXT_PUBLIC_API_URL'' \<mapsto> []]) = ''http://localhost:3001''"
  using empty_env_value_falls_back [of "[''NEXT_PUBLIC_API_URL'' \<mapsto> []]", THEN conjunct1]
  by simp

end
